theory Spec2Isabelle
  imports Main
begin

section \<open>JavaScript values\<close>

text \<open>
  The values an atom stores and a prop carries. Primitives compare by value under
  \<open>===\<close>; objects and functions are references and compare by identity, so they are
  represented by their address. The numbers are the integers and \<open>NaN\<close>; fractions and
  the infinities are outside the model.
\<close>

datatype jsval = Undefined | Null | Bool bool | Num int | NaN | Str string | Obj nat | Fn nat

text \<open>\<open>a === b\<close>: equality of the two values, except that \<open>NaN\<close> is not equal to itself.\<close>

definition strict_eq :: "jsval \<Rightarrow> jsval \<Rightarrow> bool" where
  "strict_eq a b = (a = b \<and> a \<noteq> NaN)"

text \<open>\<open>String(n)\<close> for an integer-valued number: its decimal digits, with a sign.\<close>

fun digits :: "nat \<Rightarrow> string" where
  "digits n = (if n < 10 then [char_of (48 + n)]
               else digits (n div 10) @ [char_of (48 + n mod 10)])"

declare digits.simps [simp del]

definition String_of_num :: "int \<Rightarrow> string" where
  "String_of_num i = (if i < 0 then CHR ''-'' # digits (nat (- i)) else digits (nat i))"

section \<open>The tree model (vdom.ts)\<close>

text \<open>
  \<open>VNode.type\<close> is \<open>string | Function | null\<close>: a tag, a component (a function
  reference) or \<open>null\<close> for a text node. \<open>key\<close> is optional (\<open>None\<close> is
  \<open>undefined\<close>), \<open>_dom\<close> is the binding, \<open>None\<close> while unset (\<open>undefined\<close> or
  \<open>null\<close>, both falsy; a DOM node is always truthy). Props are an object, kept as an
  association list in enumeration order. The field \<open>_component\<close> is never read by the
  code modelled here and is left out.
\<close>

type_synonym dom = nat

datatype vtype = TNull | TTag string | TComponent nat

datatype vkey = KStr string | KNum int

datatype VNode = VNode (vnode_type: vtype) (vnode_props: "(string \<times> jsval) list")
  (vnode_children: "VNode list") (vnode_key: "vkey option") (vnode_dom: "dom option")

datatype ChildMove = MOVE dom int

datatype Patch =
    CREATE VNode dom
  | REMOVE dom
  | SET_PROP dom string jsval
  | REMOVE_PROP dom string jsval
  | REPLACE dom VNode
  | REORDER_CHILDREN dom "ChildMove list"

subsection \<open>h: building a node\<close>

text \<open>
  The elements of the \<open>children\<close> argument of \<open>h\<close>, as its signature types them:
  \<open>VNode | string | number | boolean | null | undefined\<close>. On such an array
  \<open>children.flat()\<close> changes nothing, so the model maps over the list directly.
\<close>

datatype child = ChildNode VNode | ChildStr string | ChildNum int | ChildBool bool
  | ChildNull | ChildUndefined

fun normalizeChild :: "child \<Rightarrow> VNode" where
  "normalizeChild ChildNull = VNode TNull [] [] None None"
| "normalizeChild ChildUndefined = VNode TNull [] [] None None"
| "normalizeChild (ChildBool b) = VNode TNull [] [] None None"
| "normalizeChild (ChildStr s) = VNode TNull [(''nodeValue'', Str s)] [] None None"
| "normalizeChild (ChildNum n) = VNode TNull [(''nodeValue'', Str (String_of_num n))] [] None None"
| "normalizeChild (ChildNode v) = v"

definition h :: "vtype \<Rightarrow> (string \<times> jsval) list option \<Rightarrow> child list \<Rightarrow> vkey option \<Rightarrow> VNode" where
  "h type props children key =
     VNode type (case props of None \<Rightarrow> [] | Some p \<Rightarrow> p) (map normalizeChild children) key None"

section \<open>Reconciliation (diff.ts)\<close>

text \<open>
  \<open>obj[name]\<close> on a props object: \<open>undefined\<close> when the name is absent. Prop names
  are assumed not to name a member of \<open>Object.prototype\<close>, so that \<open>obj[name]\<close> and
  \<open>name in obj\<close> see own properties only.
\<close>

definition prop_get :: "(string \<times> jsval) list \<Rightarrow> string \<Rightarrow> jsval" where
  "prop_get props name = (case map_of props name of None \<Rightarrow> Undefined | Some v \<Rightarrow> v)"

definition diffProps :: "dom \<Rightarrow> (string \<times> jsval) list \<Rightarrow> (string \<times> jsval) list \<Rightarrow> Patch list \<Rightarrow> Patch list" where
  "diffProps domNode oldProps newProps ps =
     ps
     @ concat (map (\<lambda>name. if \<not> strict_eq (prop_get oldProps name) (prop_get newProps name)
                            then [SET_PROP domNode name (prop_get newProps name)] else [])
                   (map fst newProps))
     @ concat (map (\<lambda>name. if name \<notin> fst ` set newProps
                            then [REMOVE_PROP domNode name (prop_get oldProps name)] else [])
                   (map fst oldProps))"

text \<open>
  The table \<open>oldKeyed\<close> is a plain object indexed by \<open>child.key\<close>, so a number key is
  turned into its string; a later child with the same key overwrites an earlier one.
  Keys are assumed not to name a member of \<open>Object.prototype\<close>.
\<close>

definition key_string :: "vkey \<Rightarrow> string" where
  "key_string k = (case k of KStr s \<Rightarrow> s | KNum n \<Rightarrow> String_of_num n)"

definition build_oldKeyed :: "VNode list \<Rightarrow> (string \<rightharpoonup> VNode \<times> nat)" where
  "build_oldKeyed oldChildren0 =
     fold (\<lambda>(i, c) m. case vnode_key c of None \<Rightarrow> m | Some k \<Rightarrow> m(key_string k \<mapsto> (c, i)))
          (List.enumerate 0 oldChildren0) Map.empty"

text \<open>
  The state of the \<open>while\<close> loop of \<open>diffChildren\<close>: the four indices, the old array
  (a slot is \<open>None\<close> once the loop has written \<open>null\<close> into it), the patch list and the
  moves. The indices are integers: \<open>oldTail\<close> and \<open>newTail\<close> start at \<open>length - 1\<close>,
  which is \<open>-1\<close> for an empty array.
\<close>

record loop_state =
  oldHead :: int
  oldTail :: int
  newHead :: int
  newTail :: int
  oldChildren :: "VNode option list"
  patches :: "Patch list"
  moves :: "ChildMove list"

text \<open>\<open>arr[i]\<close>: \<open>undefined\<close> (here \<open>None\<close>) outside the array.\<close>

definition at_index :: "'a option list \<Rightarrow> int \<Rightarrow> 'a option" where
  "at_index xs i = (if 0 \<le> i \<and> i < int (length xs) then xs ! nat i else None)"

text \<open>\<open>a && b && a.key === b.key\<close>\<close>

definition same_key :: "VNode option \<Rightarrow> VNode option \<Rightarrow> bool" where
  "same_key a b = (case a of None \<Rightarrow> False
                   | Some x \<Rightarrow> (case b of None \<Rightarrow> False | Some y \<Rightarrow> vnode_key x = vnode_key y))"

text \<open>\<open>key != null && oldKeyed[key]\<close>, giving the entry when the test succeeds.\<close>

definition lookup_oldKeyed :: "(string \<rightharpoonup> VNode \<times> nat) \<Rightarrow> VNode \<Rightarrow> (VNode \<times> nat) option" where
  "lookup_oldKeyed oldKeyed n = (case vnode_key n of None \<Rightarrow> None | Some k \<Rightarrow> oldKeyed (key_string k))"

text \<open>The loop after the \<open>while\<close>: a \<open>REMOVE\<close> for every slot that still holds a bound node.\<close>

definition remove_remaining :: "VNode option list \<Rightarrow> Patch list" where
  "remove_remaining olds =
     concat (map (\<lambda>c. case c of None \<Rightarrow> []
                       | Some oldChild \<Rightarrow> (case vnode_dom oldChild of None \<Rightarrow> [] | Some d \<Rightarrow> [REMOVE d]))
                 olds)"

text \<open>
  \<open>diffNode\<close>, \<open>diffChildren\<close> and its \<open>while\<close> loop. The loop has no bound in the
  source, so the three functions carry fuel: every iteration of a loop uses one unit, and
  \<open>None\<close> is the result of a run that needs more iterations than the fuel allows. A
  run that returns gives \<open>Some\<close> of the patch list (the source appends to a shared
  array; the model passes the list along). The old tree is a value here: the \<open>null\<close>
  the loop writes into the old array is seen by the rest of that call of
  \<open>diffChildren\<close> only. The console warning of the guard in the same-type case is not
  part of the model.
\<close>

fun diffNode :: "nat \<Rightarrow> VNode option \<Rightarrow> VNode option \<Rightarrow> dom \<Rightarrow> Patch list \<Rightarrow> Patch list option"
  and diffChildren :: "nat \<Rightarrow> dom \<Rightarrow> VNode list \<Rightarrow> VNode list \<Rightarrow> Patch list \<Rightarrow> Patch list option"
  and whileLoop :: "nat \<Rightarrow> dom \<Rightarrow> VNode list \<Rightarrow> (string \<rightharpoonup> VNode \<times> nat) \<Rightarrow> loop_state \<Rightarrow> loop_state option"
where
  "diffNode fuel oldVNode newVNode parentDom ps =
     (case newVNode of
        None \<Rightarrow>
          (case oldVNode of
             None \<Rightarrow> Some ps
           | Some old \<Rightarrow> (case vnode_dom old of None \<Rightarrow> Some ps | Some d \<Rightarrow> Some (ps @ [REMOVE d])))
      | Some new \<Rightarrow>
          (case oldVNode of
             None \<Rightarrow> Some (ps @ [CREATE new parentDom])
           | Some old \<Rightarrow>
               if vnode_type old \<noteq> vnode_type new
               then (case vnode_dom old of None \<Rightarrow> Some ps | Some d \<Rightarrow> Some (ps @ [REPLACE d new]))
               else (case vnode_dom old of
                       None \<Rightarrow> Some ps
                     | Some domNode \<Rightarrow>
                         diffChildren fuel domNode (vnode_children old) (vnode_children new)
                           (diffProps domNode (vnode_props old) (vnode_props new) ps))))"
| "diffChildren fuel parentDom oldChildren0 newChildren ps =
     (case whileLoop fuel parentDom newChildren (build_oldKeyed oldChildren0)
             \<lparr>oldHead = 0, oldTail = int (length oldChildren0) - 1,
              newHead = 0, newTail = int (length newChildren) - 1,
              oldChildren = map Some oldChildren0, patches = ps, moves = []\<rparr> of
        None \<Rightarrow> None
      | Some st \<Rightarrow>
          Some (patches st @ remove_remaining (oldChildren st)
                @ (if moves st \<noteq> [] then [REORDER_CHILDREN parentDom (moves st)] else [])))"
| "whileLoop 0 parentDom newChildren oldKeyed st =
     (if newHead st \<le> newTail st \<or> oldHead st \<le> oldTail st then None else Some st)"
| "whileLoop (Suc fuel) parentDom newChildren oldKeyed st =
     (if \<not> (newHead st \<le> newTail st \<or> oldHead st \<le> oldTail st) then Some st
      else
        let oldHeadVNode = (if oldHead st \<le> oldTail st then at_index (oldChildren st) (oldHead st) else None);
            oldTailVNode = (if oldHead st \<le> oldTail st then at_index (oldChildren st) (oldTail st) else None);
            newHeadVNode = (if newHead st \<le> newTail st then at_index (map Some newChildren) (newHead st) else None);
            newTailVNode = (if newHead st \<le> newTail st then at_index (map Some newChildren) (newTail st) else None)
        in
        if same_key oldHeadVNode newHeadVNode then
          (case diffNode fuel oldHeadVNode newHeadVNode parentDom (patches st) of
             None \<Rightarrow> None
           | Some ps \<Rightarrow> whileLoop fuel parentDom newChildren oldKeyed
               (st\<lparr>patches := ps, oldHead := oldHead st + 1, newHead := newHead st + 1\<rparr>))
        else if same_key oldTailVNode newTailVNode then
          (case diffNode fuel oldTailVNode newTailVNode parentDom (patches st) of
             None \<Rightarrow> None
           | Some ps \<Rightarrow> whileLoop fuel parentDom newChildren oldKeyed
               (st\<lparr>patches := ps, oldTail := oldTail st - 1, newTail := newTail st - 1\<rparr>))
        else if same_key oldHeadVNode newTailVNode then
          (case diffNode fuel oldHeadVNode newTailVNode parentDom (patches st) of
             None \<Rightarrow> None
           | Some ps \<Rightarrow> whileLoop fuel parentDom newChildren oldKeyed
               (st\<lparr>patches := ps, oldHead := oldHead st + 1, newTail := newTail st - 1\<rparr>))
        else if same_key oldTailVNode newHeadVNode then
          (case diffNode fuel oldTailVNode newHeadVNode parentDom (patches st) of
             None \<Rightarrow> None
           | Some ps \<Rightarrow> whileLoop fuel parentDom newChildren oldKeyed
               (st\<lparr>patches := ps, oldTail := oldTail st - 1, newHead := newHead st + 1\<rparr>))
        else
          (case newHeadVNode of
             None \<Rightarrow> whileLoop fuel parentDom newChildren oldKeyed (st\<lparr>newHead := newHead st + 1\<rparr>)
           | Some nh \<Rightarrow>
               (case lookup_oldKeyed oldKeyed nh of
                  Some (matchedOldVNode, index) \<Rightarrow>
                    (case diffNode fuel (Some matchedOldVNode) newHeadVNode parentDom (patches st) of
                       None \<Rightarrow> None
                     | Some ps \<Rightarrow> whileLoop fuel parentDom newChildren oldKeyed
                         (st\<lparr>patches := ps,
                             oldChildren := (oldChildren st)[index := None],
                             moves := moves st @ (case vnode_dom matchedOldVNode of
                                                    None \<Rightarrow> []
                                                  | Some d \<Rightarrow> [MOVE d (newHead st)]),
                             newHead := newHead st + 1\<rparr>))
                | None \<Rightarrow> whileLoop fuel parentDom newChildren oldKeyed
                    (st\<lparr>patches := patches st @ [CREATE nh parentDom], newHead := newHead st + 1\<rparr>))))"

definition diff :: "nat \<Rightarrow> VNode option \<Rightarrow> VNode option \<Rightarrow> dom \<Rightarrow> Patch list option" where
  "diff fuel oldVNode newVNode parentDom = diffNode fuel oldVNode newVNode parentDom []"

section \<open>The reactive store (atom.ts)\<close>

text \<open>
  Atoms and effects are objects that refer to each other, so the model keeps them in two
  stores indexed by address; a consumer is an atom or an effect, as in the type
  \<open>Atom | AtomEffect\<close> of \<open>currentConsumer\<close> and \<open>consumerStack\<close>.
\<close>

datatype consumer = CAtom nat | CEffect nat

text \<open>
  The function of an effect is arbitrary code; the model gives it as a list of the calls
  it makes into the store:
  \<^item> \<open>DoGet a\<close> is \<open>a.get()\<close>, \<open>DoPeek a\<close> is \<open>a.peek()\<close>, \<open>DoSet a x\<close> is \<open>a.set(x)\<close>;
  \<^item> \<open>DoThrow\<close> is \<open>throw\<close>, \<open>DoThrowIf a v\<close> is \<open>if (a.get() === v) throw\<close>;
  \<^item> \<open>DoNewEffect fn\<close> is \<open>new AtomEffect(fn)\<close>.
\<close>

datatype cmd = DoGet nat | DoPeek nat | DoSet nat jsval | DoThrow | DoThrowIf nat jsval
  | DoNewEffect "cmd list"

text \<open>
  What an observer of a run sees, recorded in the field \<open>trace\<close> of the runtime (it is
  not part of the source and nothing in the model reads it): \<open>Ran e\<close> when the function of
  effect \<open>e\<close> is called, \<open>Saw e a v\<close> when that function reads the value \<open>v\<close> from
  atom \<open>a\<close>.
\<close>

datatype event = Ran nat | Saw nat nat jsval

datatype completion = Returned | Threw

text \<open>
  \<open>_dependents\<close> and \<open>_dependencies\<close> are \<open>Map\<close>s and \<open>_deps\<close> is a \<open>Set\<close>: they
  iterate in insertion order, so they are lists without repeated keys. A map entry keeps
  its key and its \<open>order\<close>.
\<close>

record atom =
  atom_value :: jsval
  atom_dependents :: "(consumer \<times> nat) list"
  atom_dependencies :: "(nat \<times> nat) list"
  atom_isDirty :: bool
  atom_lastChangedEpoch :: nat

record effect =
  effect_deps :: "nat list"
  effect_fn :: "cmd list"
  effect_isDisposed :: bool

text \<open>
  The module state. \<open>isBatchScheduled\<close> also stands for the microtask queue: a call of
  \<open>flushPendingAtoms\<close> is queued exactly when the flag is set. \<open>JSON_stringify\<close> gives
  the text \<open>JSON.stringify\<close> returns for the object at an address, \<open>None\<close> when it
  throws. \<open>call_function n v\<close> is the result of calling the function at address \<open>n\<close>
  on \<open>v\<close>: the functions passed to \<open>set\<close> are pure functions of the previous value.
\<close>

record runtime =
  atoms :: "nat \<Rightarrow> atom"
  effects :: "nat \<Rightarrow> effect"
  nextAtom :: nat
  nextEffect :: nat
  currentConsumer :: "consumer option"
  consumerStack :: "consumer list"
  globalEpoch :: nat
  pendingAtoms :: "nat list"
  isBatchScheduled :: bool
  JSON_stringify :: "nat \<Rightarrow> string option"
  call_function :: "nat \<Rightarrow> jsval \<Rightarrow> jsval"
  trace :: "event list"

definition initial_runtime :: runtime where
  "initial_runtime =
     \<lparr>atoms = (\<lambda>_. \<lparr>atom_value = Undefined, atom_dependents = [], atom_dependencies = [],
                      atom_isDirty = False, atom_lastChangedEpoch = 0\<rparr>),
      effects = (\<lambda>_. \<lparr>effect_deps = [], effect_fn = [], effect_isDisposed = False\<rparr>),
      nextAtom = 0, nextEffect = 0, currentConsumer = None, consumerStack = [],
      globalEpoch = 0, pendingAtoms = [], isBatchScheduled = False,
      JSON_stringify = (\<lambda>_. None), call_function = (\<lambda>_ v. v), trace = []\<rparr>"

text \<open>
  \<open>++globalEpoch\<close> and \<open>globalEpoch++\<close> on a JavaScript number. The counter starts at
  \<open>0\<close> and is only ever incremented, so it holds an integer up to \<open>2^53\<close>; there the
  sum \<open>2^53 + 1\<close> is rounded back to \<open>2^53\<close> and the counter stays.
\<close>

definition js_succ :: "nat \<Rightarrow> nat" where
  "js_succ n = (if n < 2 ^ 53 then n + 1 else n)"

definition setCurrentConsumer :: "consumer option \<Rightarrow> runtime \<Rightarrow> runtime" where
  "setCurrentConsumer consumer s =
     (let stack = (case consumer of
                     Some c \<Rightarrow> consumerStack s @ [c]
                   | None \<Rightarrow> if consumerStack s \<noteq> [] then butlast (consumerStack s)
                             else consumerStack s)
      in s\<lparr>consumerStack := stack,
            currentConsumer := (if stack = [] then None else Some (last stack))\<rparr>)"

definition scheduleFlush :: "runtime \<Rightarrow> runtime" where
  "scheduleFlush s = (if \<not> isBatchScheduled s then s\<lparr>isBatchScheduled := True\<rparr> else s)"

subsection \<open>Atom\<close>

definition Atom_new :: "jsval \<Rightarrow> runtime \<Rightarrow> runtime" where
  "Atom_new initialValue s =
     s\<lparr>atoms := (atoms s)(nextAtom s :=
           \<lparr>atom_value = initialValue, atom_dependents = [], atom_dependencies = [],
            atom_isDirty = False, atom_lastChangedEpoch = 0\<rparr>),
       nextAtom := nextAtom s + 1\<rparr>"

definition Atom_addDependent :: "nat \<Rightarrow> consumer \<Rightarrow> runtime \<Rightarrow> runtime" where
  "Atom_addDependent a dependent s =
     (if dependent \<notin> fst ` set (atom_dependents (atoms s a))
      then s\<lparr>atoms := (atoms s)(a := (atoms s a)
                \<lparr>atom_dependents := atom_dependents (atoms s a) @ [(dependent, globalEpoch s)]\<rparr>),
             globalEpoch := js_succ (globalEpoch s)\<rparr>
      else s)"

definition Atom_removeDependent :: "nat \<Rightarrow> consumer \<Rightarrow> runtime \<Rightarrow> runtime" where
  "Atom_removeDependent a dependent s =
     s\<lparr>atoms := (atoms s)(a := (atoms s a)
          \<lparr>atom_dependents := filter (\<lambda>p. fst p \<noteq> dependent) (atom_dependents (atoms s a))\<rparr>)\<rparr>"

definition Atom_addDependency :: "nat \<Rightarrow> nat \<Rightarrow> runtime \<Rightarrow> runtime" where
  "Atom_addDependency c dependency s =
     (if dependency \<notin> fst ` set (atom_dependencies (atoms s c))
      then Atom_addDependent dependency (CAtom c)
             (s\<lparr>atoms := (atoms s)(c := (atoms s c)
                   \<lparr>atom_dependencies := atom_dependencies (atoms s c) @ [(dependency, globalEpoch s)]\<rparr>),
                globalEpoch := js_succ (globalEpoch s)\<rparr>)
      else s)"

definition AtomEffect_addDependency :: "nat \<Rightarrow> nat \<Rightarrow> runtime \<Rightarrow> runtime" where
  "AtomEffect_addDependency e a s =
     (if a \<notin> set (effect_deps (effects s e))
      then Atom_addDependent a (CEffect e)
             (s\<lparr>effects := (effects s)(e := (effects s e)
                   \<lparr>effect_deps := effect_deps (effects s e) @ [a]\<rparr>)\<rparr>)
      else s)"

definition Atom_get :: "nat \<Rightarrow> runtime \<Rightarrow> jsval \<times> runtime" where
  "Atom_get a s =
     (let s' = (case currentConsumer s of
                  None \<Rightarrow> s
                | Some (CAtom c) \<Rightarrow> Atom_addDependency c a s
                | Some (CEffect e) \<Rightarrow> AtomEffect_addDependency e a s)
      in (atom_value (atoms s' a), s'))"

definition Atom_peek :: "nat \<Rightarrow> runtime \<Rightarrow> jsval" where
  "Atom_peek a s = atom_value (atoms s a)"

text \<open>\<open>typeof v === 'object'\<close>: objects and \<open>null\<close>.\<close>

definition typeof_object :: "jsval \<Rightarrow> bool" where
  "typeof_object v = (case v of Obj r \<Rightarrow> True | Null \<Rightarrow> True | _ \<Rightarrow> False)"

text \<open>\<open>JSON.stringify(v)\<close> for a value that has passed the tests before it: an object.\<close>

definition stringify :: "runtime \<Rightarrow> jsval \<Rightarrow> string option" where
  "stringify s v = (case v of Obj r \<Rightarrow> JSON_stringify s r | _ \<Rightarrow> None)"

definition Atom_isEqual :: "runtime \<Rightarrow> jsval \<Rightarrow> jsval \<Rightarrow> bool" where
  "Atom_isEqual s a b =
     (if strict_eq a b then True
      else if a = Null \<or> a = Undefined \<or> b = Null \<or> b = Undefined then strict_eq a b
      else if \<not> typeof_object a \<or> \<not> typeof_object b then strict_eq a b
      else (case stringify s a of
              None \<Rightarrow> strict_eq a b
            | Some ja \<Rightarrow> (case stringify s b of None \<Rightarrow> strict_eq a b | Some jb \<Rightarrow> ja = jb)))"

text \<open>
  \<open>newValue instanceof Function ? newValue(this._value) : newValue\<close>: every argument
  that is a function is called on the previous value.
\<close>

definition finalValue :: "runtime \<Rightarrow> jsval \<Rightarrow> jsval \<Rightarrow> jsval" where
  "finalValue s newValue prev = (case newValue of Fn n \<Rightarrow> call_function s n prev | _ \<Rightarrow> newValue)"

definition Atom_set :: "nat \<Rightarrow> jsval \<Rightarrow> runtime \<Rightarrow> runtime" where
  "Atom_set a newValue s =
     (let final = finalValue s newValue (atom_value (atoms s a))
      in if \<not> Atom_isEqual s (atom_value (atoms s a)) final
         then scheduleFlush
                (s\<lparr>atoms := (atoms s)(a := (atoms s a)
                      \<lparr>atom_value := final, atom_isDirty := True,
                       atom_lastChangedEpoch := js_succ (globalEpoch s)\<rparr>),
                   globalEpoch := js_succ (globalEpoch s),
                   pendingAtoms := (if a \<in> set (pendingAtoms s) then pendingAtoms s
                                    else pendingAtoms s @ [a])\<rparr>)
         else s)"

definition Atom_pull :: "nat \<Rightarrow> runtime \<Rightarrow> runtime" where
  "Atom_pull a s = s"

subsection \<open>AtomEffect\<close>

text \<open>
  \<open>execute_fn e fn\<close> is \<open>_execute\<close> on effect \<open>e\<close> whose \<open>_fn\<close> is \<open>fn\<close>; the function
  is passed along so that the recursion through \<open>DoNewEffect\<close> descends into the code.
  The \<open>finally\<close> block runs on both completions, and a \<open>Threw\<close> goes on to the caller.
\<close>

fun execute_fn :: "nat \<Rightarrow> cmd list \<Rightarrow> runtime \<Rightarrow> completion \<times> runtime"
  and run_fn :: "nat \<Rightarrow> cmd list \<Rightarrow> runtime \<Rightarrow> completion \<times> runtime"
  and run_cmd :: "nat \<Rightarrow> cmd \<Rightarrow> runtime \<Rightarrow> completion \<times> runtime"
where
  "execute_fn e fn s =
     (if effect_isDisposed (effects s e) then (Returned, s)
      else
        let s1 = fold (\<lambda>dep. Atom_removeDependent dep (CEffect e)) (effect_deps (effects s e)) s;
            s2 = s1\<lparr>effects := (effects s1)(e := (effects s1 e)\<lparr>effect_deps := []\<rparr>)\<rparr>;
            previousConsumer = currentConsumer s2;
            s3 = setCurrentConsumer (Some (CEffect e)) s2;
            r = run_fn e fn (s3\<lparr>trace := trace s3 @ [Ran e]\<rparr>)
        in (fst r, setCurrentConsumer previousConsumer (snd r)))"
| "run_fn self [] s = (Returned, s)"
| "run_fn self (c # cs) s =
     (case run_cmd self c s of
        (Threw, s') \<Rightarrow> (Threw, s')
      | (Returned, s') \<Rightarrow> run_fn self cs s')"
| "run_cmd self (DoGet a) s =
     (let r = Atom_get a s in (Returned, (snd r)\<lparr>trace := trace (snd r) @ [Saw self a (fst r)]\<rparr>))"
| "run_cmd self (DoPeek a) s =
     (Returned, s\<lparr>trace := trace s @ [Saw self a (Atom_peek a s)]\<rparr>)"
| "run_cmd self (DoSet a x) s = (Returned, Atom_set a x s)"
| "run_cmd self DoThrow s = (Threw, s)"
| "run_cmd self (DoThrowIf a v) s =
     (let r = Atom_get a s;
          s' = (snd r)\<lparr>trace := trace (snd r) @ [Saw self a (fst r)]\<rparr>
      in (if strict_eq (fst r) v then Threw else Returned, s'))"
| "run_cmd self (DoNewEffect fn) s =
     execute_fn (nextEffect s) fn
       (s\<lparr>effects := (effects s)(nextEffect s :=
             \<lparr>effect_deps = [], effect_fn = fn, effect_isDisposed = False\<rparr>),
          nextEffect := nextEffect s + 1\<rparr>)"

definition AtomEffect_execute :: "nat \<Rightarrow> runtime \<Rightarrow> completion \<times> runtime" where
  "AtomEffect_execute e s = execute_fn e (effect_fn (effects s e)) s"

definition AtomEffect_run :: "nat \<Rightarrow> runtime \<Rightarrow> completion \<times> runtime" where
  "AtomEffect_run e s = AtomEffect_execute e s"

text \<open>The constructor: the new effect gets the next address, then \<open>_execute\<close> runs.\<close>

definition AtomEffect_new :: "cmd list \<Rightarrow> runtime \<Rightarrow> completion \<times> runtime" where
  "AtomEffect_new fn s =
     AtomEffect_execute (nextEffect s)
       (s\<lparr>effects := (effects s)(nextEffect s :=
             \<lparr>effect_deps = [], effect_fn = fn, effect_isDisposed = False\<rparr>),
          nextEffect := nextEffect s + 1\<rparr>)"

subsection \<open>Notification and flush\<close>

fun run_dependents :: "consumer list \<Rightarrow> runtime \<Rightarrow> completion \<times> runtime" where
  "run_dependents [] s = (Returned, s)"
| "run_dependents (d # ds) s =
     (case (case d of CAtom c \<Rightarrow> (Returned, Atom_pull c s) | CEffect e \<Rightarrow> AtomEffect_run e s) of
        (Threw, s') \<Rightarrow> (Threw, s')
      | (Returned, s') \<Rightarrow> run_dependents ds s')"

definition Atom_notifyDependents :: "nat \<Rightarrow> runtime \<Rightarrow> completion \<times> runtime" where
  "Atom_notifyDependents a s =
     (if atom_isDirty (atoms s a)
      then let s1 = s\<lparr>atoms := (atoms s)(a := (atoms s a)\<lparr>atom_isDirty := False\<rparr>)\<rparr>;
               sortedDependents = map fst (sort_key snd (atom_dependents (atoms s1 a)))
           in run_dependents sortedDependents s1
      else (Returned, s))"

fun notify_atoms :: "nat list \<Rightarrow> runtime \<Rightarrow> completion \<times> runtime" where
  "notify_atoms [] s = (Returned, s)"
| "notify_atoms (a # as) s =
     (case Atom_notifyDependents a s of
        (Threw, s') \<Rightarrow> (Threw, s')
      | (Returned, s') \<Rightarrow> notify_atoms as s')"

definition atomsToNotify :: "runtime \<Rightarrow> nat list" where
  "atomsToNotify s = sort_key (\<lambda>a. atom_lastChangedEpoch (atoms s a)) (pendingAtoms s)"

definition flushPendingAtoms :: "runtime \<Rightarrow> completion \<times> runtime" where
  "flushPendingAtoms s =
     (let s1 = s\<lparr>isBatchScheduled := False\<rparr>
      in notify_atoms (atomsToNotify s1) (s1\<lparr>pendingAtoms := []\<rparr>))"

text \<open>
  A synchronous turn: the calls \<open>a1.set(x1); a2.set(x2); ...\<close> in order, each on its
  atom with its argument.
\<close>

definition writes :: "(nat \<times> jsval) list \<Rightarrow> runtime \<Rightarrow> runtime" where
  "writes ws s = fold (\<lambda>w. Atom_set (fst w) (snd w)) ws s"

subsection \<open>Vocabulary for the properties of a flush\<close>

text \<open>
  A function is calm when it only calls \<open>get\<close>, \<open>peek\<close> and \<open>set\<close>: it neither throws
  nor constructs an effect. It is read-only when it only calls \<open>get\<close> and \<open>peek\<close>.
  \<open>get_atoms\<close> are the atoms a function calls \<open>get\<close> on, \<open>set_atoms\<close> the atoms it
  calls \<open>set\<close> on.
\<close>

fun is_calm :: "cmd \<Rightarrow> bool" where
  "is_calm (DoGet a) = True"
| "is_calm (DoPeek a) = True"
| "is_calm (DoSet a x) = True"
| "is_calm c = False"

definition calm :: "cmd list \<Rightarrow> bool" where
  "calm fn = list_all is_calm fn"

fun is_read :: "cmd \<Rightarrow> bool" where
  "is_read (DoGet a) = True"
| "is_read (DoPeek a) = True"
| "is_read c = False"

definition read_only :: "cmd list \<Rightarrow> bool" where
  "read_only fn = list_all is_read fn"

fun get_atoms :: "cmd list \<Rightarrow> nat list" where
  "get_atoms [] = []"
| "get_atoms (DoGet a # cs) = a # get_atoms cs"
| "get_atoms (c # cs) = get_atoms cs"

fun set_atoms :: "cmd list \<Rightarrow> nat list" where
  "set_atoms [] = []"
| "set_atoms (DoSet a x # cs) = a # set_atoms cs"
| "set_atoms (c # cs) = set_atoms cs"

text \<open>Effect \<open>e\<close> is registered among the dependents of atom \<open>b\<close>.\<close>

definition depends_on :: "runtime \<Rightarrow> nat \<Rightarrow> nat \<Rightarrow> bool" where
  "depends_on s e b = (CEffect e \<in> fst ` set (atom_dependents (atoms s b)))"

text \<open>
  A state is subscribed when the dependents of every atom have distinct keys (they are
  the keys of a \<open>Map\<close>) and every effect registered with some atom is live, has a calm
  function, and is registered with exactly the atoms its function calls \<open>get\<close> on. This
  is the state \<open>_execute\<close> leaves behind for an effect with a calm function.
\<close>

definition subscribed :: "runtime \<Rightarrow> bool" where
  "subscribed s =
     ((\<forall>b. distinct (map fst (atom_dependents (atoms s b))))
      \<and> (\<forall>e b. depends_on s e b \<longrightarrow>
             \<not> effect_isDisposed (effects s e) \<and> calm (effect_fn (effects s e))
             \<and> (\<forall>b'. depends_on s e b' \<longleftrightarrow> b' \<in> set (get_atoms (effect_fn (effects s e))))))"

text \<open>Every effect registered with some atom has a read-only function.\<close>

definition readers_only :: "runtime \<Rightarrow> bool" where
  "readers_only s = (\<forall>e b. depends_on s e b \<longrightarrow> read_only (effect_fn (effects s e)))"

text \<open>
  What a calm function leaves alone: the consumer stack, the functions of the effects and
  their disposal, and the dirty flags that are set. \<open>same_values\<close>: no atom has changed
  its value.
\<close>

definition quiet :: "runtime \<Rightarrow> runtime \<Rightarrow> bool" where
  "quiet s s' =
     (consumerStack s' = consumerStack s \<and> currentConsumer s' = currentConsumer s
      \<and> (\<forall>e. effect_fn (effects s' e) = effect_fn (effects s e))
      \<and> (\<forall>e. effect_isDisposed (effects s' e) = effect_isDisposed (effects s e))
      \<and> (\<forall>b. atom_isDirty (atoms s b) \<longrightarrow> atom_isDirty (atoms s' b)))"

definition same_values :: "runtime \<Rightarrow> runtime \<Rightarrow> bool" where
  "same_values s s' = (\<forall>b. atom_value (atoms s' b) = atom_value (atoms s b))"

text \<open>
  While the function of effect \<open>e\<close> runs: \<open>e\<close> is the current consumer, it is registered
  with every atom in its \<open>_deps\<close>, and the keys of every \<open>_dependents\<close> are distinct.
\<close>

definition running :: "nat \<Rightarrow> runtime \<Rightarrow> bool" where
  "running e s =
     (currentConsumer s = Some (CEffect e)
      \<and> (\<forall>b \<in> set (effect_deps (effects s e)). depends_on s e b)
      \<and> (\<forall>b. distinct (map fst (atom_dependents (atoms s b)))))"

text \<open>The events a run from \<open>s\<close> to \<open>s'\<close> has added to the trace.\<close>

definition new_events :: "runtime \<Rightarrow> runtime \<Rightarrow> event list" where
  "new_events s s' = drop (length (trace s)) (trace s')"

section \<open>Scenarios\<close>

text \<open>A keyed list item of type \<open>li\<close> without props or children.\<close>

definition li :: "string \<Rightarrow> dom option \<Rightarrow> VNode" where
  "li k d = VNode (TTag ''li'') [] [] (Some (KStr k)) d"

text \<open>One atom holding \<open>0\<close>.\<close>

definition one_atom :: runtime where
  "one_atom = Atom_new (Num 0) initial_runtime"

text \<open>
  Two atoms holding \<open>0\<close>. In \<open>two_effects\<close>, effect 0 reads atom 0 and throws when it
  sees \<open>1\<close>, and effect 1 reads atom 1; then both atoms are set to \<open>1\<close> in one turn.
  \<open>two_effects_flushing\<close> is the state in which the flush starts to notify,
  \<open>two_effects_notifying\<close> the state in which atom 0 runs its dependents.
\<close>

definition two_atoms :: runtime where
  "two_atoms = Atom_new (Num 0) (Atom_new (Num 0) initial_runtime)"

definition two_effects :: runtime where
  "two_effects =
     snd (AtomEffect_new [DoGet 1] (snd (AtomEffect_new [DoThrowIf 0 (Num 1)] two_atoms)))"

definition two_effects_written :: runtime where
  "two_effects_written = Atom_set 1 (Num 1) (Atom_set 0 (Num 1) two_effects)"

definition two_effects_flushing :: runtime where
  "two_effects_flushing = two_effects_written\<lparr>isBatchScheduled := False, pendingAtoms := []\<rparr>"

definition two_effects_notifying :: runtime where
  "two_effects_notifying =
     two_effects_flushing\<lparr>atoms := (atoms two_effects_flushing)
        (0 := (atoms two_effects_flushing 0)\<lparr>atom_isDirty := False\<rparr>)\<rparr>"

text \<open>One effect that reads both atoms; then both atoms are set to \<open>1\<close> in one turn.\<close>

definition reader_of_two :: runtime where
  "reader_of_two = snd (AtomEffect_new [DoGet 0, DoGet 1] two_atoms)"

definition reader_of_two_written :: runtime where
  "reader_of_two_written = Atom_set 1 (Num 1) (Atom_set 0 (Num 1) reader_of_two)"

text \<open>An effect whose function constructs a second effect, on the runtime with one atom.\<close>

definition nested_effect :: "completion \<times> runtime" where
  "nested_effect = AtomEffect_new [DoNewEffect []] one_atom"

section \<open>Properties of the reconciler\<close>

lemma whileLoop_done:
  "\<not> (newHead st \<le> newTail st \<or> oldHead st \<le> oldTail st) \<Longrightarrow>
   whileLoop fuel parentDom newChildren oldKeyed st = Some st"
  by (cases fuel) simp_all

text \<open>
  Once the new range is used up while the old range is not, no branch of the loop body
  moves an old index: each iteration only increments \<open>newHead\<close>, and the loop condition
  stays true.
\<close>

lemma whileLoop_new_exhausted:
  "newTail st < newHead st \<Longrightarrow> oldHead st \<le> oldTail st \<Longrightarrow>
   whileLoop fuel parentDom newChildren oldKeyed st = None"
proof (induction fuel arbitrary: st)
  case 0
  then show ?case by simp
next
  case (Suc fuel)
  have "whileLoop (Suc fuel) parentDom newChildren oldKeyed st
        = whileLoop fuel parentDom newChildren oldKeyed (st\<lparr>newHead := newHead st + 1\<rparr>)"
    using Suc.prems by (simp add: same_key_def Let_def split: option.splits)
  also have "\<dots> = None"
    using Suc.prems by (intro Suc.IH) simp_all
  finally show ?case .
qed

text \<open>
  C2. The claim: \<open>diff(T, T)\<close> is the empty patch list for every tree \<open>T\<close>, bound
  nodes included. The code at a bound \<open>div\<close> with one bound \<open>span\<close> child: the child
  is matched head to head and produces no patch, but the loop after the \<open>while\<close> goes
  over every slot of the old array and only the slots matched through the key table were
  cleared, so the matched child is removed. With any fuel that covers the one iteration
  the result is a single \<open>REMOVE\<close> of the child's node.
\<close>

theorem diff_same_tree_removes_child:
  "diff (Suc fuel)
     (Some (VNode (TTag ''div'') [] [VNode (TTag ''span'') [] [] None (Some 2)] None (Some 1)))
     (Some (VNode (TTag ''div'') [] [VNode (TTag ''span'') [] [] None (Some 2)] None (Some 1)))
     0
   = Some [REMOVE 2]"
  by (simp add: diff_def diffProps_def build_oldKeyed_def at_index_def same_key_def
      remove_remaining_def whileLoop_done Let_def)

text \<open>
  C3. The claim: for every pair of child lists the loop of \<open>diffChildren\<close> terminates
  with both ranges exhausted. The code with a non-empty old list and an empty new list:
  whatever the fuel, \<open>diffChildren\<close> does not return.
\<close>

theorem diffChildren_old_left_never_returns:
  "diffChildren fuel parentDom (c # cs) [] ps = None"
  by (simp add: whileLoop_new_exhausted)

text \<open>
  C4. The claim: for old children \<open>a, b, c\<close> and new children \<open>c, a, b\<close> the patch
  list has no \<open>CREATE\<close>, no \<open>REMOVE\<close> and one \<open>REORDER_CHILDREN\<close> with a single
  move. The code, for bound old children and any bindings of the new nodes: the branch
  for old tail against new head records no move, the three children are matched and then
  all removed, and no \<open>REORDER_CHILDREN\<close> is emitted.
\<close>

theorem diff_rotated_keys_removes_all:
  "diff (Suc (Suc (Suc fuel)))
     (Some (VNode (TTag ''ul'') [] [li ''a'' (Some 2), li ''b'' (Some 3), li ''c'' (Some 4)] None (Some 1)))
     (Some (VNode (TTag ''ul'') [] [li ''c'' dc, li ''a'' da, li ''b'' db] None dn))
     0
   = Some [REMOVE 2, REMOVE 3, REMOVE 4]"
  by (simp add: diff_def li_def diffProps_def build_oldKeyed_def at_index_def same_key_def
      remove_remaining_def whileLoop_done Let_def)

text \<open>
  C10. When the old node is present and its binding is unset, \<open>diff\<close> returns the empty
  patch list whatever the new node is: absent (the removal branch), of another type (the
  replace branch) or of the same type (the guard before the props and children).
\<close>

theorem diff_unbound_old_no_patches:
  "vnode_dom old = None \<Longrightarrow> diff fuel (Some old) new parentDom = Some []"
  by (cases new) (simp_all add: diff_def)

theorem diff_unbound_old_no_patches_witness:
  "vnode_dom (VNode (TTag ''p'') [(''id'', Str ''x'')] [] None None) = None
   \<and> diff 0 (Some (VNode (TTag ''p'') [(''id'', Str ''x'')] [] None None)) None 7 = Some []
   \<and> diff 0 (Some (VNode (TTag ''p'') [(''id'', Str ''x'')] [] None None))
        (Some (VNode (TTag ''b'') [] [] None None)) 7 = Some []
   \<and> diff 0 (Some (VNode (TTag ''p'') [(''id'', Str ''x'')] [] None None))
        (Some (VNode (TTag ''p'') [] [] None None)) 7 = Some []"
  using diff_unbound_old_no_patches [of "VNode (TTag ''p'') [(''id'', Str ''x'')] [] None None" 0 None 7]
    diff_unbound_old_no_patches [of "VNode (TTag ''p'') [(''id'', Str ''x'')] [] None None" 0
       "Some (VNode (TTag ''b'') [] [] None None)" 7]
    diff_unbound_old_no_patches [of "VNode (TTag ''p'') [(''id'', Str ''x'')] [] None None" 0
       "Some (VNode (TTag ''p'') [] [] None None)" 7]
  by simp

section \<open>Properties of the tree constructor\<close>

text \<open>
  C7, the claim as stated: children that are \<open>null\<close>, \<open>undefined\<close>, \<open>true\<close> or
  \<open>false\<close> leave no entry in the children of the node \<open>h\<close> returns. In the code each
  of them becomes an empty text node, so four such children give four entries.
\<close>

theorem h_keeps_null_and_boolean_children:
  "vnode_children (h (TTag ''div'') None [ChildNull, ChildUndefined, ChildBool True, ChildBool False] None)
   = [VNode TNull [] [] None None, VNode TNull [] [] None None,
      VNode TNull [] [] None None, VNode TNull [] [] None None]"
  by (simp add: h_def)

text \<open>
  C7, amended. The children of the node \<open>h\<close> returns have the length of the argument,
  and position by position: a string or number child is a text node whose \<open>nodeValue\<close>
  is its string, a node child is kept, and a \<open>null\<close>, \<open>undefined\<close> or boolean child is
  an empty text node (type \<open>null\<close>, no props, no children).
\<close>

theorem h_children_positionwise:
  "length (vnode_children (h t p cs k)) = length cs
   \<and> (\<forall>i < length cs.
        vnode_children (h t p cs k) ! i =
          (case cs ! i of
             ChildStr s \<Rightarrow> VNode TNull [(''nodeValue'', Str s)] [] None None
           | ChildNum n \<Rightarrow> VNode TNull [(''nodeValue'', Str (String_of_num n))] [] None None
           | ChildNode v \<Rightarrow> v
           | _ \<Rightarrow> VNode TNull [] [] None None))"
  by (auto simp add: h_def split: child.splits)

theorem h_children_positionwise_witness:
  "(1::nat) < length [ChildStr ''a'', ChildNull, ChildNum 7]
   \<and> length (vnode_children (h TNull None [ChildStr ''a'', ChildNull, ChildNum 7] None)) = 3
   \<and> vnode_children (h TNull None [ChildStr ''a'', ChildNull, ChildNum 7] None) ! 1
       = VNode TNull [] [] None None"
  using h_children_positionwise [of TNull None "[ChildStr ''a'', ChildNull, ChildNum 7]" None]
  by simp

section \<open>Properties of the reactive store\<close>

lemmas eval_defs = one_atom_def two_atoms_def two_effects_def
  two_effects_written_def two_effects_flushing_def two_effects_notifying_def reader_of_two_def
  reader_of_two_written_def nested_effect_def writes_def
  Atom_new_def initial_runtime_def AtomEffect_new_def
  AtomEffect_execute_def AtomEffect_run_def setCurrentConsumer_def Atom_get_def
  Atom_addDependency_def AtomEffect_addDependency_def Atom_addDependent_def
  Atom_removeDependent_def Atom_set_def Atom_isEqual_def strict_eq_def finalValue_def
  typeof_object_def stringify_def scheduleFlush_def js_succ_def flushPendingAtoms_def
  atomsToNotify_def Atom_notifyDependents_def Atom_pull_def Atom_peek_def Let_def

subsection \<open>The consumer stack\<close>

text \<open>
  C9. The claim: after every execution of an effect the consumer stack is exactly what it
  was before, also for an effect constructed while another one is active. The code on an
  empty stack with an effect whose function constructs a second effect: the inner
  \<open>_execute\<close> restores by calling \<open>setCurrentConsumer\<close> with the outer effect, which
  pushes it a second time; the outer \<open>_execute\<close> then pops one entry. Both effects stay
  on the stack, the inner effect is the current consumer, and a later \<open>get\<close> made outside
  every effect subscribes the inner effect.
\<close>

theorem nested_effect_corrupts_stack:
  "consumerStack one_atom = [] \<and> currentConsumer one_atom = None
   \<and> fst nested_effect = Returned
   \<and> consumerStack (snd nested_effect) = [CEffect 0, CEffect 1]
   \<and> currentConsumer (snd nested_effect) = Some (CEffect 1)
   \<and> map fst (atom_dependents (atoms (snd (Atom_get 0 (snd nested_effect))) 0)) = [CEffect 1]"
  by (simp add: eval_defs)

subsection \<open>Flush: an effect that throws\<close>

lemma run_dependents_append_throw:
  "run_dependents ds s = (Returned, s1) \<Longrightarrow> AtomEffect_run e s1 = (Threw, s2) \<Longrightarrow>
   run_dependents (ds @ CEffect e # rest) s = (Threw, s2)"
  by (induction ds arbitrary: s) (auto split: prod.splits completion.splits)

lemma notify_atoms_append_throw:
  "notify_atoms before s = (Returned, s1) \<Longrightarrow> Atom_notifyDependents a s1 = (Threw, s2) \<Longrightarrow>
   notify_atoms (before @ a # rest) s = (Threw, s2)"
  by (induction before arbitrary: s) (auto split: prod.splits completion.splits)

text \<open>
  C1, the claim as stated: when the first effect run by a flush throws, the exception is
  caught at the flush and the effect of the other pending atom still runs. The code with
  effect 0 on atom 0 (it throws when it reads \<open>1\<close>), effect 1 on atom 1, and both atoms
  set to \<open>1\<close>: atom 0 is notified first, effect 0 runs and throws, and the flush ends with
  that exception. Effect 1 has not run, atom 1 is still dirty, and the pending set is
  empty, so no later flush runs effect 1 for this write.
\<close>

theorem flush_throw_skips_other_effect:
  "atomsToNotify two_effects_written = [0, 1]
   \<and> map fst (atom_dependents (atoms two_effects_written 0)) = [CEffect 0]
   \<and> map fst (atom_dependents (atoms two_effects_written 1)) = [CEffect 1]
   \<and> fst (flushPendingAtoms two_effects_written) = Threw
   \<and> trace (snd (flushPendingAtoms two_effects_written))
       = trace two_effects_written @ [Ran 0, Saw 0 0 (Num 1)]
   \<and> atom_isDirty (atoms (snd (flushPendingAtoms two_effects_written)) 1)
   \<and> pendingAtoms (snd (flushPendingAtoms two_effects_written)) = []"
  by (simp add: eval_defs)

text \<open>
  C1, amended. Nothing in \<open>flushPendingAtoms\<close>, \<open>_notifyDependents\<close> or \<open>run\<close> catches:
  when the atoms before \<open>a\<close> in the flush order are notified normally, the dependents of
  \<open>a\<close> before effect \<open>e\<close> run normally, and the run of \<open>e\<close> throws, then the flush
  completes with that exception in the state in which the run of \<open>e\<close> ended. The
  dependents after \<open>e\<close> and the atoms after \<open>a\<close> are not run.
\<close>

theorem flush_throw_not_caught:
  assumes "atomsToNotify s = before @ a # rest"
    and "notify_atoms before (s\<lparr>isBatchScheduled := False, pendingAtoms := []\<rparr>) = (Returned, s1)"
    and "atom_isDirty (atoms s1 a)"
    and "map fst (sort_key snd (atom_dependents (atoms s1 a))) = ds @ CEffect e # ds'"
    and "run_dependents ds (s1\<lparr>atoms := (atoms s1)(a := (atoms s1 a)\<lparr>atom_isDirty := False\<rparr>)\<rparr>) = (Returned, s2)"
    and "AtomEffect_run e s2 = (Threw, s3)"
  shows "flushPendingAtoms s = (Threw, s3)"
proof -
  have "Atom_notifyDependents a s1 = (Threw, s3)"
    using assms(3-6) by (simp add: Atom_notifyDependents_def Let_def run_dependents_append_throw)
  with assms(2) have "notify_atoms (before @ a # rest) (s\<lparr>isBatchScheduled := False, pendingAtoms := []\<rparr>) = (Threw, s3)"
    by (rule notify_atoms_append_throw)
  with assms(1) show ?thesis
    by (simp add: flushPendingAtoms_def atomsToNotify_def Let_def)
qed

theorem flush_throw_not_caught_witness:
  "atomsToNotify two_effects_written = [] @ 0 # [1]
   \<and> notify_atoms [] (two_effects_written\<lparr>isBatchScheduled := False, pendingAtoms := []\<rparr>)
       = (Returned, two_effects_flushing)
   \<and> atom_isDirty (atoms two_effects_flushing 0)
   \<and> map fst (sort_key snd (atom_dependents (atoms two_effects_flushing 0))) = [] @ CEffect 0 # []
   \<and> run_dependents [] two_effects_notifying = (Returned, two_effects_notifying)
   \<and> fst (AtomEffect_run 0 two_effects_notifying) = Threw
   \<and> flushPendingAtoms two_effects_written = (Threw, snd (AtomEffect_run 0 two_effects_notifying))"
proof -
  have h1: "atomsToNotify two_effects_written = [] @ 0 # [1]"
    by (simp add: eval_defs)
  have h2: "notify_atoms [] (two_effects_written\<lparr>isBatchScheduled := False, pendingAtoms := []\<rparr>)
       = (Returned, two_effects_flushing)"
    by (simp add: two_effects_flushing_def)
  have h3: "atom_isDirty (atoms two_effects_flushing 0)"
    by (simp add: eval_defs)
  have h4: "map fst (sort_key snd (atom_dependents (atoms two_effects_flushing 0))) = [] @ CEffect 0 # []"
    by (simp add: eval_defs)
  have h5: "run_dependents []
       (two_effects_flushing\<lparr>atoms := (atoms two_effects_flushing)
          (0 := (atoms two_effects_flushing 0)\<lparr>atom_isDirty := False\<rparr>)\<rparr>)
      = (Returned, two_effects_notifying)"
    by (simp add: two_effects_notifying_def)
  have h6': "fst (AtomEffect_run 0 two_effects_notifying) = Threw"
    by (simp add: eval_defs)
  then have h6: "AtomEffect_run 0 two_effects_notifying
      = (Threw, snd (AtomEffect_run 0 two_effects_notifying))"
    by (metis prod.collapse)
  have h5': "run_dependents [] two_effects_notifying = (Returned, two_effects_notifying)"
    by simp
  from flush_throw_not_caught [OF h1 h2 h3 h4 h5 h6] h1 h2 h3 h4 h5' h6' show ?thesis
    by blast
qed

end
